theory Spec2Isabelle
  imports Main "HOL-Library.Word"
begin

section \<open>The preprocessor fragment that sysdep.h is written in\<close>

text \<open>
  sysdep.h consists of preprocessor directives only: three \<^verbatim>\<open>#include\<close>s, two
  conditionals, and \<^verbatim>\<open>#define\<close>/\<^verbatim>\<open>#undef\<close> of object-like macros. A macro is
  either defined with an empty replacement list (the three markers of sysdep.h) or with
  an integer value (the constants the system headers provide).

  The preprocessor evaluates the expression of an \<^verbatim>\<open>#if\<close> in the widest integer
  types, \<^verbatim>\<open>intmax_t\<close> and \<^verbatim>\<open>uintmax_t\<close>, which are 64 bits wide on the targets of
  these headers. A value is therefore kept as its 64 bits: -1 and 18446744073709551615
  are the same value, and so are 1234 and 18446744073709552850.
\<close>

datatype body = Empty | Val "64 word"

type_synonym macros = "string \<rightharpoonup> body"

definition is_defined :: "string \<Rightarrow> macros \<Rightarrow> bool" where
  "is_defined x env = (case env x of None \<Rightarrow> False | Some b \<Rightarrow> True)"

datatype pp_expr =
    Ident string
  | Defined string
  | Cmp_eq pp_expr pp_expr
  | Log_and pp_expr pp_expr

datatype directive =
    Include string
  | Define string body
  | Undef string
  | If_else pp_expr "directive list" "directive list"

datatype pp_error = Missing_header string | Bad_expression

text \<open>
  The build target. The header files that sysdep.h and GC.c include are not part of the
  sources; what they provide is a parameter of the model:
  \<^item> \<open>headers\<close>: the header files found on the include path;
  \<^item> \<open>byte_order\<close>, \<open>little_endian\<close>: the values that \<^verbatim>\<open><endian.h>\<close> gives
    \<^verbatim>\<open>__BYTE_ORDER\<close> and \<^verbatim>\<open>__LITTLE_ENDIAN\<close>, as the preprocessor evaluates them;
  \<^item> \<open>wordsize\<close>: the value that \<^verbatim>\<open><bits/wordsize.h>\<close> gives \<^verbatim>\<open>__WORDSIZE\<close>;
  \<^item> \<open>fe_downward\<close>, \<open>fe_upward\<close>: the values that \<^verbatim>\<open><fenv.h>\<close> gives
    \<^verbatim>\<open>FE_DOWNWARD\<close> and \<^verbatim>\<open>FE_UPWARD\<close>, \<open>None\<close> when the platform does not support
    that rounding direction (the header then does not define the macro);
  \<^item> \<open>other_defines\<close>: for every other header, the macros it defines, in order;
  \<^item> \<open>pointer_size\<close>: the size of a pointer in bytes.
\<close>

record platform =
  headers :: "string list"
  byte_order :: "64 word"
  little_endian :: "64 word"
  wordsize :: "64 word"
  fe_downward :: "64 word option"
  fe_upward :: "64 word option"
  other_defines :: "string \<Rightarrow> (string \<times> body) list"
  pointer_size :: nat

definition has_downward :: "platform \<Rightarrow> bool" where
  "has_downward p = (case fe_downward p of None \<Rightarrow> False | Some d \<Rightarrow> True)"

definition has_upward :: "platform \<Rightarrow> bool" where
  "has_upward p = (case fe_upward p of None \<Rightarrow> False | Some u \<Rightarrow> True)"

text \<open>
  What an included header leaves in the macro table. A header only adds definitions:
  \<^verbatim>\<open><endian.h>\<close> and \<^verbatim>\<open><bits/wordsize.h>\<close> define their macros with the platform's
  values; \<^verbatim>\<open><fenv.h>\<close> defines a rounding-direction macro when the platform supports
  the direction and otherwise leaves the macro as it finds it, so that a definition made
  earlier in the translation unit stays; every other header (\<^verbatim>\<open>ucontext.h\<close>,
  \<^verbatim>\<open>saclib.h\<close>) defines the macros the platform lists for it.
\<close>

definition define_if :: "string \<Rightarrow> 64 word option \<Rightarrow> macros \<Rightarrow> macros" where
  "define_if x v env = (case v of None \<Rightarrow> env | Some w \<Rightarrow> env(x \<mapsto> Val w))"

fun define_all :: "(string \<times> body) list \<Rightarrow> macros \<Rightarrow> macros" where
  "define_all [] env = env"
| "define_all ((x, b) # ds) env = define_all ds (env(x \<mapsto> b))"

definition header_effect :: "platform \<Rightarrow> string \<Rightarrow> macros \<Rightarrow> macros" where
  "header_effect p h env =
     (if h = ''endian.h'' then
        env(''__LITTLE_ENDIAN'' \<mapsto> Val (little_endian p),
            ''__BYTE_ORDER'' \<mapsto> Val (byte_order p))
      else if h = ''bits/wordsize.h'' then
        env(''__WORDSIZE'' \<mapsto> Val (wordsize p))
      else if h = ''fenv.h'' then
        define_if ''FE_UPWARD'' (fe_upward p) (define_if ''FE_DOWNWARD'' (fe_downward p) env)
      else define_all (other_defines p h) env)"

text \<open>
  The controlling expression of \<^verbatim>\<open>#if\<close>: an identifier that is not a macro is 0, a
  macro with a value is that value, a macro with an empty replacement list leaves no
  expression to evaluate (an error); \<^verbatim>\<open>defined(X)\<close> is 1 or 0. The operands of
  \<^verbatim>\<open>==\<close> are brought to a common type first, a signed one being converted modulo
  \<open>2 ^ 64\<close> when the other is unsigned: they are equal exactly when their 64 bits are.
\<close>

fun eval_if :: "macros \<Rightarrow> pp_expr \<Rightarrow> 64 word option" where
  "eval_if env (Ident x) =
     (case env x of None \<Rightarrow> Some 0 | Some Empty \<Rightarrow> None | Some (Val v) \<Rightarrow> Some v)"
| "eval_if env (Defined x) = Some (if is_defined x env then 1 else 0)"
| "eval_if env (Cmp_eq a b) =
     (case eval_if env a of None \<Rightarrow> None
      | Some u \<Rightarrow> (case eval_if env b of None \<Rightarrow> None
                   | Some v \<Rightarrow> Some (if u = v then 1 else 0)))"
| "eval_if env (Log_and a b) =
     (case eval_if env a of None \<Rightarrow> None
      | Some u \<Rightarrow> (case eval_if env b of None \<Rightarrow> None
                   | Some v \<Rightarrow> Some (if u = 0 then 0 else if v = 0 then 0 else 1)))"

text \<open>
  The state of preprocessing: the macro table, and the directives executed so far in the
  order of their execution (the directives of a conditional's skipped group do not
  appear). A missing header and a malformed \<^verbatim>\<open>#if\<close> stop the translation.
\<close>

type_synonym pp_state = "macros \<times> directive list"

fun exec :: "platform \<Rightarrow> directive \<Rightarrow> pp_state \<Rightarrow> pp_error + pp_state"
  and exec_list :: "platform \<Rightarrow> directive list \<Rightarrow> pp_state \<Rightarrow> pp_error + pp_state"
where
  "exec p (Include h) (env, trail) =
     (if h \<in> set (headers p)
      then Inr (header_effect p h env, trail @ [Include h])
      else Inl (Missing_header h))"
| "exec p (Define x b) (env, trail) = Inr (env(x \<mapsto> b), trail @ [Define x b])"
| "exec p (Undef x) (env, trail) = Inr (env(x := None), trail @ [Undef x])"
| "exec p (If_else c yes no) (env, trail) =
     (case eval_if env c of
        None \<Rightarrow> Inl Bad_expression
      | Some v \<Rightarrow> if v = 0 then exec_list p no (env, trail)
                 else exec_list p yes (env, trail))"
| "exec_list p [] s = Inr s"
| "exec_list p (d # ds) s =
     (case exec p d s of Inl e \<Rightarrow> Inl e | Inr s' \<Rightarrow> exec_list p ds s')"

section \<open>sysdep.h\<close>

text \<open>The header, directive by directive. It has no include guard.\<close>

definition sysdep_h :: "directive list" where
  "sysdep_h =
     [Include ''endian.h'',
      Include ''bits/wordsize.h'',
      If_else (Cmp_eq (Ident ''__BYTE_ORDER'') (Ident ''__LITTLE_ENDIAN''))
        [Define ''_LITTLE_ENDIAN_'' Empty,
         Undef ''_BIG_ENDIAN_'']
        [Undef ''_LITTLE_ENDIAN_'',
         Define ''_BIG_ENDIAN_'' Empty],
      Include ''fenv.h'',
      If_else (Log_and (Defined ''FE_DOWNWARD'') (Defined ''FE_UPWARD''))
        [Define ''_X86_LINUX_'' Empty]
        []]"

text \<open>\<^verbatim>\<open>#include "sysdep.h"\<close> once, and \<open>n\<close> times in a row.\<close>

definition include_sysdep :: "platform \<Rightarrow> pp_state \<Rightarrow> pp_error + pp_state" where
  "include_sysdep p s = exec_list p sysdep_h s"

fun include_times :: "nat \<Rightarrow> platform \<Rightarrow> pp_state \<Rightarrow> pp_error + pp_state" where
  "include_times 0 p s = Inr s"
| "include_times (Suc n) p s =
     (case include_sysdep p s of Inl e \<Rightarrow> Inl e | Inr s' \<Rightarrow> include_times n p s')"

definition provides_sysdep_headers :: "platform \<Rightarrow> bool" where
  "provides_sysdep_headers p =
     (''endian.h'' \<in> set (headers p) \<and> ''bits/wordsize.h'' \<in> set (headers p)
      \<and> ''fenv.h'' \<in> set (headers p))"

text \<open>Observing the outcome of preprocessing; a failed translation defines nothing.\<close>

definition succeeds :: "pp_error + pp_state \<Rightarrow> bool" where
  "succeeds r = (case r of Inl e \<Rightarrow> False | Inr s \<Rightarrow> True)"

definition macros_after :: "pp_error + pp_state \<Rightarrow> macros option" where
  "macros_after r = (case r of Inl e \<Rightarrow> None | Inr s \<Rightarrow> Some (fst s))"

definition trail_after :: "pp_error + pp_state \<Rightarrow> directive list" where
  "trail_after r = (case r of Inl e \<Rightarrow> [] | Inr s \<Rightarrow> snd s)"

definition defined_after :: "string \<Rightarrow> pp_error + pp_state \<Rightarrow> bool" where
  "defined_after x r = (case macros_after r of None \<Rightarrow> False | Some env \<Rightarrow> is_defined x env)"

text \<open>The platform exposes both directed rounding modes.\<close>

definition rounds_both_ways :: "platform \<Rightarrow> bool" where
  "rounds_both_ways p = (has_downward p \<and> has_upward p)"

text \<open>
  Both rounding-direction macros are defined once \<^verbatim>\<open><fenv.h>\<close> has been included on top
  of the macro table \<open>env\<close>: each by the header, or before it.
\<close>

definition both_defined_after_fenv :: "platform \<Rightarrow> macros \<Rightarrow> bool" where
  "both_defined_after_fenv p env =
     ((has_downward p \<or> is_defined ''FE_DOWNWARD'' env)
      \<and> (has_upward p \<or> is_defined ''FE_UPWARD'' env))"

text \<open>
  The net effect of one inclusion on a platform that has the three system headers, in
  closed form: the macro table and the directives executed. Lemma
  \<open>include_sysdep_closed\<close> below shows that this is what the directives of \<open>sysdep_h\<close>
  compute.
\<close>

definition sysdep_macros :: "platform \<Rightarrow> macros \<Rightarrow> macros" where
  "sysdep_macros p env =
     (let e1 = env(''__LITTLE_ENDIAN'' \<mapsto> Val (little_endian p),
                   ''__BYTE_ORDER'' \<mapsto> Val (byte_order p),
                   ''__WORDSIZE'' \<mapsto> Val (wordsize p));
          e2 = (if byte_order p = little_endian p
                then e1(''_LITTLE_ENDIAN_'' \<mapsto> Empty, ''_BIG_ENDIAN_'' := None)
                else e1(''_LITTLE_ENDIAN_'' := None, ''_BIG_ENDIAN_'' \<mapsto> Empty));
          e3 = define_if ''FE_UPWARD'' (fe_upward p)
                 (define_if ''FE_DOWNWARD'' (fe_downward p) e2)
      in if both_defined_after_fenv p env then e3(''_X86_LINUX_'' \<mapsto> Empty) else e3)"

definition sysdep_trail :: "platform \<Rightarrow> macros \<Rightarrow> directive list" where
  "sysdep_trail p env =
     [Include ''endian.h'', Include ''bits/wordsize.h'']
     @ (if byte_order p = little_endian p
        then [Define ''_LITTLE_ENDIAN_'' Empty, Undef ''_BIG_ENDIAN_'']
        else [Undef ''_LITTLE_ENDIAN_'', Define ''_BIG_ENDIAN_'' Empty])
     @ [Include ''fenv.h'']
     @ (if both_defined_after_fenv p env then [Define ''_X86_LINUX_'' Empty] else [])"

text \<open>The directives that define or undefine one of the two endianness markers.\<close>

fun on_endian_marker :: "directive \<Rightarrow> bool" where
  "on_endian_marker (Define x b) = (x = ''_LITTLE_ENDIAN_'' \<or> x = ''_BIG_ENDIAN_'')"
| "on_endian_marker (Undef x) = (x = ''_LITTLE_ENDIAN_'' \<or> x = ''_BIG_ENDIAN_'')"
| "on_endian_marker d = False"

text \<open>
  The reading of the byte-order check that asks for the clearing to come first: going
  through the directives executed by one inclusion, whenever one of the two endianness
  markers is defined, the \<^verbatim>\<open>#undef\<close> of the other one has already been executed.
  The first argument collects the macros undefined so far.
\<close>

fun cleared_before_defined :: "string list \<Rightarrow> directive list \<Rightarrow> bool" where
  "cleared_before_defined cleared [] = True"
| "cleared_before_defined cleared (Undef x # ds) = cleared_before_defined (x # cleared) ds"
| "cleared_before_defined cleared (Define x b # ds) =
     (if x = ''_LITTLE_ENDIAN_''
      then ''_BIG_ENDIAN_'' \<in> set cleared \<and> cleared_before_defined cleared ds
      else if x = ''_BIG_ENDIAN_''
      then ''_LITTLE_ENDIAN_'' \<in> set cleared \<and> cleared_before_defined cleared ds
      else cleared_before_defined cleared ds)"
| "cleared_before_defined cleared (d # ds) = cleared_before_defined cleared ds"

section \<open>GC.c\<close>

text \<open>The \<^verbatim>\<open>#include\<close> lines of GC.c; the translation unit does not build without them.\<close>

definition GC_c_includes :: "directive list" where
  "GC_c_includes = [Include ''ucontext.h'', Include ''saclib.h'']"

definition build_GC_c :: "platform \<Rightarrow> macros \<Rightarrow> pp_error + pp_state" where
  "build_GC_c p predefined = exec_list p GC_c_includes (predefined, [])"

text \<open>
  The run-time state that \<^verbatim>\<open>GC\<close> touches: the register file, and the context records
  stored in memory, by address. A run carries, besides the machine, the calls made to
  the two external functions, oldest first.
\<close>

type_synonym addr = nat

type_synonym regfile = "nat list"

record machine =
  regs :: regfile
  memory :: "addr \<rightharpoonup> regfile"

datatype event = Ev_getcontext addr int | Ev_GCSI nat addr

type_synonym run = "event list \<times> machine"

text \<open>
  \<^verbatim>\<open>getcontext\<close> belongs to the C library. Its contract: on success it stores the
  current execution context in the record at \<open>ucp\<close> and returns 0; on failure it returns
  -1 and the record is left as it was. Whether a call succeeds is not decided by the
  caller: it is the parameter \<open>ok\<close>.
\<close>

definition getcontext :: "bool \<Rightarrow> addr \<Rightarrow> run \<Rightarrow> int \<times> run" where
  "getcontext ok ucp r =
     (case r of (calls, m) \<Rightarrow>
        if ok
        then (0, calls @ [Ev_getcontext ucp 0], m\<lparr>memory := (memory m)(ucp \<mapsto> regs m)\<rparr>)
        else (- 1, calls @ [Ev_getcontext ucp (- 1)], m))"

text \<open>
  \<^verbatim>\<open>GCSI\<close> is the collector proper, defined elsewhere in saclib; what it does to the
  machine is the parameter \<open>collector\<close>. It returns nothing.
\<close>

definition GCSI :: "(nat \<Rightarrow> addr \<Rightarrow> machine \<Rightarrow> machine) \<Rightarrow> nat \<Rightarrow> addr \<Rightarrow> run \<Rightarrow> unit \<times> run" where
  "GCSI collector s EACSTACK r =
     (case r of (calls, m) \<Rightarrow> ((), calls @ [Ev_GCSI s EACSTACK], collector s EACSTACK m))"

text \<open>
  Modelled from the spec: the type \<^verbatim>\<open>Word\<close> is declared in saclib.h, which is not among
  the sources. The spec describes the first argument of the collector call as
  "the machine pointer width in bytes"; \<^verbatim>\<open>sizeof(Word)\<close> is therefore taken to be the
  pointer size of the platform.
\<close>

definition sizeof_Word :: "platform \<Rightarrow> nat" where
  "sizeof_Word p = pointer_size p"

text \<open>
  \<^verbatim>\<open>void GC(void)\<close>. The parameter \<open>context\<close> is the address of the automatic variable
  \<^verbatim>\<open>context\<close> in the frame of this activation. The value \<open>rc\<close> that \<^verbatim>\<open>getcontext\<close>
  returns is not used. The cast to \<^verbatim>\<open>char *\<close> leaves the address as it is.
\<close>

definition GC :: "platform \<Rightarrow> bool \<Rightarrow> (nat \<Rightarrow> addr \<Rightarrow> machine \<Rightarrow> machine) \<Rightarrow> addr \<Rightarrow> run \<Rightarrow> unit \<times> run" where
  "GC p ok collector context r0 =
     (case getcontext ok context r0 of (rc, r1) \<Rightarrow>
        GCSI collector (sizeof_Word p) context r1)"

text \<open>The calls to \<^verbatim>\<open>GCSI\<close> in a list of events, with their arguments.\<close>

fun GCSI_calls :: "event list \<Rightarrow> (nat \<times> addr) list" where
  "GCSI_calls [] = []"
| "GCSI_calls (Ev_GCSI s a # es) = (s, a) # GCSI_calls es"
| "GCSI_calls (Ev_getcontext a rc # es) = GCSI_calls es"

section \<open>Example targets\<close>

definition glibc_headers :: "string list" where
  "glibc_headers =
     [''endian.h'', ''bits/wordsize.h'', ''fenv.h'', ''ucontext.h'', ''saclib.h'']"

text \<open>\<^verbatim>\<open>ucontext.h\<close> brings \<^verbatim>\<open>__WORDSIZE\<close> with it.\<close>

definition glibc_defines :: "64 word \<Rightarrow> string \<Rightarrow> (string \<times> body) list" where
  "glibc_defines w h = (if h = ''ucontext.h'' then [(''__WORDSIZE'', Val w)] else [])"

text \<open>A little-endian 64-bit target with all four rounding directions.\<close>

definition little_target :: platform where
  "little_target =
     \<lparr>headers = glibc_headers, byte_order = 1234, little_endian = 1234, wordsize = 64,
      fe_downward = Some 1024, fe_upward = Some 2048,
      other_defines = glibc_defines 64, pointer_size = 8\<rparr>"

text \<open>A big-endian 32-bit target with round-to-nearest only.\<close>

definition big_target :: platform where
  "big_target =
     \<lparr>headers = glibc_headers, byte_order = 4321, little_endian = 1234, wordsize = 32,
      fe_downward = None, fe_upward = None,
      other_defines = glibc_defines 32, pointer_size = 4\<rparr>"

text \<open>A mixed-endian (PDP) target that rounds downward but not upward.\<close>

definition pdp_target :: platform where
  "pdp_target =
     \<lparr>headers = glibc_headers, byte_order = 3412, little_endian = 1234, wordsize = 32,
      fe_downward = Some 1, fe_upward = None,
      other_defines = glibc_defines 32, pointer_size = 4\<rparr>"

text \<open>A macro table in which all three markers of sysdep.h are already defined.\<close>

definition all_markers :: macros where
  "all_markers =
     [''_LITTLE_ENDIAN_'' \<mapsto> Empty, ''_BIG_ENDIAN_'' \<mapsto> Empty, ''_X86_LINUX_'' \<mapsto> Empty]"

text \<open>
  A target on which \<^verbatim>\<open>__BYTE_ORDER\<close> is written -1 and \<^verbatim>\<open>__LITTLE_ENDIAN\<close> is written
  18446744073709551615.
\<close>

definition all_ones_target :: platform where
  "all_ones_target =
     \<lparr>headers = glibc_headers, byte_order = - 1, little_endian = 18446744073709551615,
      wordsize = 64, fe_downward = None, fe_upward = None,
      other_defines = glibc_defines 64, pointer_size = 8\<rparr>"

text \<open>A macro table in which both rounding-direction macros are already defined.\<close>

definition directions_predefined :: macros where
  "directions_predefined = [''FE_DOWNWARD'' \<mapsto> Val 1, ''FE_UPWARD'' \<mapsto> Val 2]"

text \<open>A target without \<^verbatim>\<open>ucontext.h\<close>.\<close>

definition bare_target :: platform where
  "bare_target =
     \<lparr>headers = [''endian.h'', ''bits/wordsize.h'', ''fenv.h'', ''saclib.h''],
      byte_order = 1234, little_endian = 1234, wordsize = 64,
      fe_downward = Some 1024, fe_upward = Some 2048,
      other_defines = glibc_defines 64, pointer_size = 8\<rparr>"

text \<open>A collector that leaves the machine as it is.\<close>

definition no_collection :: "nat \<Rightarrow> addr \<Rightarrow> machine \<Rightarrow> machine" where
  "no_collection s a m = m"

definition idle_machine :: machine where
  "idle_machine = \<lparr>regs = [7, 11, 13], memory = Map.empty\<rparr>"

section \<open>One inclusion of sysdep.h in closed form\<close>

lemma is_defined_upd [simp]:
  "is_defined x (env(y \<mapsto> b)) = (x = y \<or> is_defined x env)"
  "is_defined x (env(y := None)) = (x \<noteq> y \<and> is_defined x env)"
  by (simp_all add: is_defined_def)

lemma is_defined_define_if [simp]:
  "is_defined x (define_if y v env) = (x = y \<and> v \<noteq> None \<or> is_defined x env)"
  by (cases v) (auto simp: define_if_def)

lemma has_direction_iff:
  "has_downward p = (fe_downward p \<noteq> None)"
  "has_upward p = (fe_upward p \<noteq> None)"
  by (simp_all add: has_downward_def has_upward_def split: option.splits)

lemma include_sysdep_closed:
  assumes "provides_sysdep_headers p"
  shows "include_sysdep p (env, trail) = Inr (sysdep_macros p env, trail @ sysdep_trail p env)"
  using assms
  by (simp add: include_sysdep_def sysdep_h_def provides_sysdep_headers_def header_effect_def
      sysdep_macros_def sysdep_trail_def both_defined_after_fenv_def has_direction_iff Let_def)

lemma include_sysdep_missing:
  assumes "\<not> provides_sysdep_headers p"
  shows "\<not> succeeds (include_sysdep p s)"
  using assms
  by (cases s) (auto simp: include_sysdep_def sysdep_h_def provides_sysdep_headers_def
      succeeds_def header_effect_def has_direction_iff)

lemma both_defined_after_fenv_idem:
  "both_defined_after_fenv p (sysdep_macros p env) = both_defined_after_fenv p env"
  by (auto simp: sysdep_macros_def both_defined_after_fenv_def has_direction_iff Let_def)

lemma define_if_idem:
  "define_if x v (define_if x v env) = define_if x v env"
  by (cases v) (simp_all add: define_if_def)

lemma sysdep_macros_idem: "sysdep_macros p (sysdep_macros p env) = sysdep_macros p env"
proof (rule ext)
  fix x
  show "sysdep_macros p (sysdep_macros p env) x = sysdep_macros p env x"
    unfolding sysdep_macros_def [of p "sysdep_macros p env"] both_defined_after_fenv_idem
    by (cases "fe_downward p"; cases "fe_upward p")
      (simp_all add: sysdep_macros_def define_if_def Let_def)
qed

lemma sysdep_trail_idem: "sysdep_trail p (sysdep_macros p env) = sysdep_trail p env"
  by (simp add: sysdep_trail_def both_defined_after_fenv_idem)

lemma include_times_closed:
  assumes "provides_sysdep_headers p"
  shows "include_times (Suc n) p (env, trail) =
         Inr (sysdep_macros p env, trail @ concat (replicate (Suc n) (sysdep_trail p env)))"
proof (induction n arbitrary: env trail)
  case 0
  show ?case by (simp add: include_sysdep_closed [OF assms])
next
  case (Suc n)
  have "include_times (Suc (Suc n)) p (env, trail) =
        include_times (Suc n) p (sysdep_macros p env, trail @ sysdep_trail p env)"
    by (simp add: include_sysdep_closed [OF assms])
  also have "\<dots> = Inr (sysdep_macros p (sysdep_macros p env),
                 (trail @ sysdep_trail p env)
                 @ concat (replicate (Suc n) (sysdep_trail p (sysdep_macros p env))))"
    by (rule Suc.IH)
  finally show ?case by (simp add: sysdep_macros_idem sysdep_trail_idem)
qed

lemma include_times_macros:
  "macros_after (include_times (Suc n) p s) = macros_after (include_sysdep p s)"
proof (cases "provides_sysdep_headers p")
  case True
  obtain env trail where s: "s = (env, trail)" by (cases s)
  show ?thesis
    unfolding s include_times_closed [OF True] include_sysdep_closed [OF True]
    by (simp add: macros_after_def)
next
  case False
  have "\<not> succeeds (include_sysdep p s)" by (rule include_sysdep_missing [OF False])
  then show ?thesis
    by (cases "include_sysdep p s") (simp_all add: succeeds_def macros_after_def)
qed

lemma little_marker_after:
  "is_defined ''_LITTLE_ENDIAN_'' (sysdep_macros p env) = (byte_order p = little_endian p)"
  by (simp add: sysdep_macros_def Let_def)

lemma big_marker_after:
  "is_defined ''_BIG_ENDIAN_'' (sysdep_macros p env) = (byte_order p \<noteq> little_endian p)"
  by (simp add: sysdep_macros_def Let_def)

lemma rounding_marker_after:
  "is_defined ''_X86_LINUX_'' (sysdep_macros p env) =
   (is_defined ''_X86_LINUX_'' env \<or> both_defined_after_fenv p env)"
  by (simp add: sysdep_macros_def Let_def)

lemma direction_macros_after:
  "is_defined ''FE_DOWNWARD'' (sysdep_macros p env)
   = (has_downward p \<or> is_defined ''FE_DOWNWARD'' env)"
  "is_defined ''FE_UPWARD'' (sysdep_macros p env)
   = (has_upward p \<or> is_defined ''FE_UPWARD'' env)"
  by (auto simp: sysdep_macros_def has_direction_iff Let_def)

lemma observe_Inr [simp]:
  "succeeds (Inr s)"
  "macros_after (Inr s) = Some (fst s)"
  "trail_after (Inr s) = snd s"
  "defined_after x (Inr s) = is_defined x (fst s)"
  by (simp_all add: succeeds_def macros_after_def trail_after_def defined_after_def)

lemma provides_glibc_headers [simp]:
  "provides_sysdep_headers little_target"
  "provides_sysdep_headers big_target"
  "provides_sysdep_headers pdp_target"
  "provides_sysdep_headers all_ones_target"
  by (simp_all add: provides_sysdep_headers_def little_target_def big_target_def
      pdp_target_def all_ones_target_def glibc_headers_def)

lemma directions_of_targets [simp]:
  "has_downward little_target" "has_upward little_target"
  "\<not> has_downward big_target" "\<not> has_upward big_target"
  "has_downward pdp_target" "\<not> has_upward pdp_target"
  by (simp_all add: has_downward_def has_upward_def little_target_def big_target_def
      pdp_target_def)

lemma rounds_both_ways_targets [simp]:
  "rounds_both_ways little_target"
  "\<not> rounds_both_ways big_target"
  "\<not> rounds_both_ways pdp_target"
  by (simp_all add: rounds_both_ways_def)

lemma is_defined_all_markers [simp]:
  "is_defined ''_LITTLE_ENDIAN_'' all_markers"
  "is_defined ''_BIG_ENDIAN_'' all_markers"
  "is_defined ''_X86_LINUX_'' all_markers"
  "\<not> is_defined ''FE_DOWNWARD'' all_markers"
  "\<not> is_defined ''FE_UPWARD'' all_markers"
  by (simp_all add: is_defined_def all_markers_def)

lemma is_defined_directions_predefined [simp]:
  "is_defined ''FE_DOWNWARD'' directions_predefined"
  "is_defined ''FE_UPWARD'' directions_predefined"
  "\<not> is_defined ''_X86_LINUX_'' directions_predefined"
  by (simp_all add: is_defined_def directions_predefined_def)

lemma is_defined_empty [simp]: "\<not> is_defined x Map.empty"
  by (simp add: is_defined_def)

lemma target_byte_orders [simp]:
  "byte_order little_target = 1234" "little_endian little_target = 1234"
  "byte_order big_target = 4321" "little_endian big_target = 1234"
  "byte_order pdp_target = 3412" "little_endian pdp_target = 1234"
  "byte_order all_ones_target = little_endian all_ones_target"
  by (simp_all add: little_target_def big_target_def pdp_target_def all_ones_target_def)

text \<open>
  The byte-order test is made on 64 bits: a target that writes \<^verbatim>\<open>__BYTE_ORDER\<close> as -1
  and \<^verbatim>\<open>__LITTLE_ENDIAN\<close> as 18446744073709551615 takes the \<^verbatim>\<open>#if\<close> group.
\<close>

lemma all_ones_target_is_little:
  "defined_after ''_LITTLE_ENDIAN_'' (include_sysdep all_ones_target (Map.empty, []))"
  "\<not> defined_after ''_BIG_ENDIAN_'' (include_sysdep all_ones_target (Map.empty, []))"
  by (simp_all add: include_sysdep_closed little_marker_after big_marker_after)

section \<open>The markers of sysdep.h\<close>

text \<open>
  C2, as amended. After the header has been included, \<^verbatim>\<open>_X86_LINUX_\<close> is defined if
  and only if it was defined before the inclusion already, or \<^verbatim>\<open>FE_DOWNWARD\<close> and
  \<^verbatim>\<open>FE_UPWARD\<close> are both defined once \<^verbatim>\<open><fenv.h>\<close> has been included; each of these two
  is defined then if and only if the platform exposes that rounding mode or the macro
  was defined before the inclusion. So from a macro table with none of the three macros,
  the marker is defined exactly on the platforms that expose both modes, and absent on
  those that report one or neither.
\<close>

theorem rounding_marker_after_inclusion:
  assumes "provides_sysdep_headers p"
  shows "succeeds (include_sysdep p (env, trail))
         \<and> defined_after ''_X86_LINUX_'' (include_sysdep p (env, trail))
           = (is_defined ''_X86_LINUX_'' env
              \<or> defined_after ''FE_DOWNWARD'' (include_sysdep p (env, trail))
                \<and> defined_after ''FE_UPWARD'' (include_sysdep p (env, trail)))
         \<and> defined_after ''FE_DOWNWARD'' (include_sysdep p (env, trail))
           = (has_downward p \<or> is_defined ''FE_DOWNWARD'' env)
         \<and> defined_after ''FE_UPWARD'' (include_sysdep p (env, trail))
           = (has_upward p \<or> is_defined ''FE_UPWARD'' env)
         \<and> (\<not> is_defined ''_X86_LINUX_'' env \<and> \<not> is_defined ''FE_DOWNWARD'' env
              \<and> \<not> is_defined ''FE_UPWARD'' env
            \<longrightarrow> defined_after ''_X86_LINUX_'' (include_sysdep p (env, trail))
                = rounds_both_ways p)"
  by (simp add: include_sysdep_closed [OF assms] rounding_marker_after direction_macros_after
      both_defined_after_fenv_def rounds_both_ways_def)

theorem rounding_marker_after_inclusion_witness:
  "provides_sysdep_headers pdp_target
   \<and> \<not> is_defined ''_X86_LINUX_'' Map.empty \<and> \<not> is_defined ''FE_DOWNWARD'' Map.empty
   \<and> \<not> is_defined ''FE_UPWARD'' Map.empty
   \<and> succeeds (include_sysdep pdp_target (Map.empty, []))
   \<and> \<not> defined_after ''_X86_LINUX_'' (include_sysdep pdp_target (Map.empty, []))
   \<and> provides_sysdep_headers big_target
   \<and> \<not> rounds_both_ways big_target
   \<and> defined_after ''_X86_LINUX_'' (include_sysdep big_target (directions_predefined, []))"
  using rounding_marker_after_inclusion [of pdp_target Map.empty "[]"]
    rounding_marker_after_inclusion [of big_target directions_predefined "[]"]
  by simp

text \<open>
  C2, as stated, fails where the marker is defined before the inclusion: the target
  rounds downward but not upward, and the marker is still defined afterwards.
\<close>

theorem rounding_marker_iff_counterexample:
  "\<not> (defined_after ''_X86_LINUX_'' (include_sysdep pdp_target (all_markers, []))
      \<longleftrightarrow> rounds_both_ways pdp_target)"
  by (simp add: include_sysdep_closed rounding_marker_after)

text \<open>
  C3. After one or more inclusions of the header, from any macro table, exactly one of
  \<^verbatim>\<open>_LITTLE_ENDIAN_\<close> and \<^verbatim>\<open>_BIG_ENDIAN_\<close> is defined: never both, never neither.
\<close>

theorem exactly_one_endian_marker:
  assumes "provides_sysdep_headers p"
  shows "succeeds (include_times (Suc n) p (env, trail))
         \<and> (defined_after ''_LITTLE_ENDIAN_'' (include_times (Suc n) p (env, trail))
              \<and> \<not> defined_after ''_BIG_ENDIAN_'' (include_times (Suc n) p (env, trail))
            \<or> \<not> defined_after ''_LITTLE_ENDIAN_'' (include_times (Suc n) p (env, trail))
              \<and> defined_after ''_BIG_ENDIAN_'' (include_times (Suc n) p (env, trail)))"
  unfolding include_times_closed [OF assms]
  by (simp add: little_marker_after big_marker_after)

theorem exactly_one_endian_marker_witness:
  "provides_sysdep_headers big_target
   \<and> succeeds (include_times (Suc (Suc (Suc 0))) big_target (all_markers, []))
   \<and> (defined_after ''_LITTLE_ENDIAN_''
          (include_times (Suc (Suc (Suc 0))) big_target (all_markers, []))
        \<and> \<not> defined_after ''_BIG_ENDIAN_''
            (include_times (Suc (Suc (Suc 0))) big_target (all_markers, []))
      \<or> \<not> defined_after ''_LITTLE_ENDIAN_''
            (include_times (Suc (Suc (Suc 0))) big_target (all_markers, []))
        \<and> defined_after ''_BIG_ENDIAN_''
            (include_times (Suc (Suc (Suc 0))) big_target (all_markers, [])))"
  using exactly_one_endian_marker [of big_target "Suc (Suc 0)" all_markers "[]"]
  by simp

text \<open>
  C4, as amended. The byte-order check executes exactly two directives on the endianness
  markers. Where the byte order is not the little-endian one (the two values compared
  on 64 bits, as the preprocessor does), \<^verbatim>\<open>_LITTLE_ENDIAN_\<close> is
  undefined first and \<^verbatim>\<open>_BIG_ENDIAN_\<close> defined after it. On a little-endian platform
  \<^verbatim>\<open>_LITTLE_ENDIAN_\<close> is defined first and \<^verbatim>\<open>_BIG_ENDIAN_\<close> undefined right after it, so
  there the clearing follows the definition. In both cases the markers after the
  inclusion are those of the platform's byte order, whatever they were before: a
  repeated or conflicting inclusion leaves neither both nor none of them defined.
\<close>

theorem endian_markers_reset:
  assumes "provides_sysdep_headers p"
  shows "succeeds (include_sysdep p (env, []))
         \<and> filter on_endian_marker (trail_after (include_sysdep p (env, [])))
           = (if byte_order p = little_endian p
              then [Define ''_LITTLE_ENDIAN_'' Empty, Undef ''_BIG_ENDIAN_'']
              else [Undef ''_LITTLE_ENDIAN_'', Define ''_BIG_ENDIAN_'' Empty])
         \<and> cleared_before_defined [] (trail_after (include_sysdep p (env, [])))
           = (byte_order p \<noteq> little_endian p)
         \<and> defined_after ''_LITTLE_ENDIAN_'' (include_sysdep p (env, []))
           = (byte_order p = little_endian p)
         \<and> defined_after ''_BIG_ENDIAN_'' (include_sysdep p (env, []))
           = (byte_order p \<noteq> little_endian p)"
  by (simp add: include_sysdep_closed [OF assms] little_marker_after big_marker_after
      sysdep_trail_def)

theorem endian_markers_reset_witness:
  "provides_sysdep_headers little_target
   \<and> succeeds (include_sysdep little_target (all_markers, []))
   \<and> filter on_endian_marker (trail_after (include_sysdep little_target (all_markers, [])))
     = [Define ''_LITTLE_ENDIAN_'' Empty, Undef ''_BIG_ENDIAN_'']
   \<and> defined_after ''_LITTLE_ENDIAN_'' (include_sysdep little_target (all_markers, []))
   \<and> \<not> defined_after ''_BIG_ENDIAN_'' (include_sysdep little_target (all_markers, []))"
  using endian_markers_reset [of little_target all_markers]
  by simp

text \<open>
  C4, as stated, fails on a little-endian platform: \<^verbatim>\<open>_LITTLE_ENDIAN_\<close> is defined
  while \<^verbatim>\<open>_BIG_ENDIAN_\<close>, defined by an earlier inclusion, has not been cleared yet.
\<close>

theorem cleared_before_defined_counterexample:
  "filter on_endian_marker (trail_after (include_sysdep little_target (all_markers, [])))
     = [Define ''_LITTLE_ENDIAN_'' Empty, Undef ''_BIG_ENDIAN_'']
   \<and> \<not> cleared_before_defined []
          (trail_after (include_sysdep little_target (all_markers, [])))"
  by (simp add: include_sysdep_closed sysdep_trail_def)

text \<open>
  C6. Including the header twice or more leaves the same macro table as including it
  once; in particular each of the three markers is defined after the repeated inclusion
  if and only if it is defined after a single one.
\<close>

theorem reinclusion_idempotent:
  "macros_after (include_times (Suc (Suc n)) p s) = macros_after (include_sysdep p s)
   \<and> defined_after x (include_times (Suc (Suc n)) p s) = defined_after x (include_sysdep p s)"
  by (simp only: defined_after_def include_times_macros simp_thms)

theorem reinclusion_idempotent_witness:
  "succeeds (include_sysdep pdp_target (all_markers, []))
   \<and> macros_after (include_times (Suc (Suc 0)) pdp_target (all_markers, []))
     = macros_after (include_sysdep pdp_target (all_markers, []))
   \<and> defined_after ''_X86_LINUX_'' (include_times (Suc (Suc 0)) pdp_target (all_markers, []))
     = defined_after ''_X86_LINUX_'' (include_sysdep pdp_target (all_markers, []))"
  using reinclusion_idempotent [of 0 pdp_target "(all_markers, [])" "''_X86_LINUX_''"]
  by (simp add: include_sysdep_closed)

text \<open>
  C9. The detection is two-way: for every byte-order value other than the little-endian
  constant, mixed endianness included, the header takes the \<^verbatim>\<open>#else\<close> group and leaves
  \<^verbatim>\<open>_BIG_ENDIAN_\<close> defined and \<^verbatim>\<open>_LITTLE_ENDIAN_\<close> undefined. The two values are
  those the preprocessor compares, on 64 bits.
\<close>

theorem not_little_is_big:
  assumes "provides_sysdep_headers p"
    and "byte_order p \<noteq> little_endian p"
  shows "succeeds (include_sysdep p (env, trail))
         \<and> defined_after ''_BIG_ENDIAN_'' (include_sysdep p (env, trail))
         \<and> \<not> defined_after ''_LITTLE_ENDIAN_'' (include_sysdep p (env, trail))
         \<and> Define ''_BIG_ENDIAN_'' Empty \<in> set (trail_after (include_sysdep p (env, trail)))"
  using assms(2)
  by (simp add: include_sysdep_closed [OF assms(1)] little_marker_after big_marker_after
      sysdep_trail_def)

theorem not_little_is_big_witness:
  "provides_sysdep_headers pdp_target
   \<and> byte_order pdp_target \<noteq> little_endian pdp_target
   \<and> byte_order pdp_target = 3412
   \<and> succeeds (include_sysdep pdp_target (Map.empty, []))
   \<and> defined_after ''_BIG_ENDIAN_'' (include_sysdep pdp_target (Map.empty, []))
   \<and> \<not> defined_after ''_LITTLE_ENDIAN_'' (include_sysdep pdp_target (Map.empty, []))"
proof -
  have order: "byte_order pdp_target \<noteq> little_endian pdp_target"
    by simp
  show ?thesis
    using not_little_is_big [OF provides_glibc_headers(3) order, of Map.empty "[]"]
    by simp
qed

text \<open>
  C10. The header never undefines \<^verbatim>\<open>_X86_LINUX_\<close>: no \<^verbatim>\<open>#undef\<close> of it is executed, and
  a marker that was defined before the inclusion is defined after it, also on a platform
  that lacks one or both of the directed rounding modes.
\<close>

theorem rounding_marker_kept:
  assumes "provides_sysdep_headers p"
    and "is_defined ''_X86_LINUX_'' env"
  shows "defined_after ''_X86_LINUX_'' (include_sysdep p (env, []))
         \<and> Undef ''_X86_LINUX_'' \<notin> set (trail_after (include_sysdep p (env, [])))"
  using assms(2)
  by (simp add: include_sysdep_closed [OF assms(1)] rounding_marker_after sysdep_trail_def)

theorem rounding_marker_kept_witness:
  "provides_sysdep_headers big_target
   \<and> is_defined ''_X86_LINUX_'' all_markers
   \<and> \<not> rounds_both_ways big_target
   \<and> defined_after ''_X86_LINUX_'' (include_sysdep big_target (all_markers, []))
   \<and> Undef ''_X86_LINUX_'' \<notin> set (trail_after (include_sysdep big_target (all_markers, [])))"
  using rounding_marker_kept [OF provides_glibc_headers(2) is_defined_all_markers(3)]
  by simp

section \<open>The collection trampoline\<close>

lemma GCSI_calls_append: "GCSI_calls (es @ fs) = GCSI_calls es @ GCSI_calls fs"
  by (induction es rule: GCSI_calls.induct) simp_all

lemma GC_unfolded:
  "GC p ok collector context (calls, m) =
     ((), calls @ [Ev_getcontext context (if ok then 0 else - 1),
                   Ev_GCSI (sizeof_Word p) context],
      collector (sizeof_Word p) context
        (if ok then m\<lparr>memory := (memory m)(context \<mapsto> regs m)\<rparr> else m))"
  by (simp add: GC_def getcontext_def GCSI_def)

lemma build_GC_c_unfolded:
  "build_GC_c p predefined =
     (if ''ucontext.h'' \<in> set (headers p)
      then if ''saclib.h'' \<in> set (headers p)
           then Inr (header_effect p ''saclib.h'' (header_effect p ''ucontext.h'' predefined),
                     [Include ''ucontext.h'', Include ''saclib.h''])
           else Inl (Missing_header ''saclib.h'')
      else Inl (Missing_header ''ucontext.h''))"
  by (simp add: build_GC_c_def GC_c_includes_def)

text \<open>
  C1. Every invocation of \<^verbatim>\<open>GC\<close> calls \<^verbatim>\<open>GCSI\<close> exactly once: the events it adds to
  those of the run so far hold one call of \<^verbatim>\<open>GCSI\<close>, and the first argument of that
  call is the pointer size of the platform in bytes.
\<close>

theorem GC_calls_GCSI_once:
  "take (length calls) (fst (snd (GC p ok collector context (calls, m)))) = calls
   \<and> GCSI_calls (drop (length calls) (fst (snd (GC p ok collector context (calls, m)))))
     = [(pointer_size p, context)]"
  by (simp add: GC_unfolded sizeof_Word_def)

theorem GC_calls_GCSI_once_witness:
  "GCSI_calls (drop (length [Ev_GCSI 8 512])
      (fst (snd (GC little_target True no_collection 4096 ([Ev_GCSI 8 512], idle_machine)))))
   = [(8, 4096)]"
  using GC_calls_GCSI_once
    [of "[Ev_GCSI 8 512]" little_target True no_collection 4096 idle_machine]
  by (simp add: little_target_def)

text \<open>
  C5. \<^verbatim>\<open>GC\<close> takes no argument and returns no value. It first calls the context capture
  on its local record, and only then the collector, whose second argument is the address
  of that same record: the collector runs on the machine that the capture has left, in
  which (the capture having succeeded) the record holds the register file.
\<close>

theorem GC_captures_then_collects:
  "fst (GC p ok collector context (calls, m)) = ()
   \<and> fst (snd (GC p ok collector context (calls, m)))
     = calls @ [Ev_getcontext context (fst (getcontext ok context (calls, m))),
                Ev_GCSI (sizeof_Word p) context]
   \<and> snd (snd (GC p ok collector context (calls, m)))
     = collector (sizeof_Word p) context (snd (snd (getcontext ok context (calls, m))))
   \<and> memory (snd (snd (getcontext True context (calls, m)))) context = Some (regs m)"
  by (simp add: GC_unfolded getcontext_def)

theorem GC_captures_then_collects_witness:
  "fst (snd (GC little_target True no_collection 4096 ([], idle_machine)))
     = [Ev_getcontext 4096 0, Ev_GCSI 8 4096]
   \<and> memory (snd (snd (GC little_target True no_collection 4096 ([], idle_machine)))) 4096
     = Some [7, 11, 13]"
  using GC_captures_then_collects [of little_target True no_collection 4096 "[]" idle_machine]
  by (simp add: getcontext_def no_collection_def idle_machine_def sizeof_Word_def
      little_target_def)

text \<open>
  C7, as amended. \<^verbatim>\<open>GC\<close> has no run-time error path: whether the context capture
  succeeds or fails, \<^verbatim>\<open>GC\<close> makes the same two calls and returns nothing. A platform
  without the header of the capture facility fails at build time. A failure of the
  capture at run time is not a build-time failure: the build depends on the headers
  only.
\<close>

theorem GC_no_runtime_error_path:
  "fst (GC p ok collector context (calls, m)) = ()
   \<and> fst (snd (GC p ok collector context (calls, m)))
     = calls @ [Ev_getcontext context (if ok then 0 else - 1),
                Ev_GCSI (sizeof_Word p) context]
   \<and> build_GC_c p predefined
     = (if ''ucontext.h'' \<in> set (headers p)
        then if ''saclib.h'' \<in> set (headers p)
             then Inr (header_effect p ''saclib.h'' (header_effect p ''ucontext.h'' predefined),
                       [Include ''ucontext.h'', Include ''saclib.h''])
             else Inl (Missing_header ''saclib.h'')
        else Inl (Missing_header ''ucontext.h''))"
  by (simp add: GC_unfolded build_GC_c_unfolded)

theorem GC_no_runtime_error_path_witness:
  "succeeds (build_GC_c little_target Map.empty)
   \<and> fst (snd (GC little_target False no_collection 4096 ([], idle_machine)))
     = [Ev_getcontext 4096 (- 1), Ev_GCSI 8 4096]
   \<and> fst (snd (GC little_target True no_collection 4096 ([], idle_machine)))
     = [Ev_getcontext 4096 0, Ev_GCSI 8 4096]
   \<and> build_GC_c bare_target Map.empty = Inl (Missing_header ''ucontext.h'')"
  using GC_no_runtime_error_path
    [of little_target False no_collection 4096 "[]" idle_machine Map.empty]
    GC_no_runtime_error_path
    [of little_target True no_collection 4096 "[]" idle_machine Map.empty]
    GC_no_runtime_error_path
    [of bare_target False no_collection 4096 "[]" idle_machine Map.empty]
  by (simp add: bare_target_def little_target_def glibc_headers_def sizeof_Word_def)

text \<open>
  C7, as stated, fails: on a target where GC.c builds, the context capture can still
  fail at run time, and \<^verbatim>\<open>GC\<close> then hands the collector a record that was never
  written.
\<close>

theorem capture_failure_at_run_time_counterexample:
  "\<not> (fst (getcontext False 4096 ([], idle_machine)) = - 1
       \<longrightarrow> \<not> succeeds (build_GC_c little_target Map.empty))
   \<and> fst (snd (GC little_target False no_collection 4096 ([], idle_machine)))
     = [Ev_getcontext 4096 (- 1), Ev_GCSI 8 4096]
   \<and> memory (snd (snd (GC little_target False no_collection 4096 ([], idle_machine)))) 4096
     = None"
  by (simp add: GC_unfolded build_GC_c_unfolded getcontext_def no_collection_def
      idle_machine_def sizeof_Word_def little_target_def glibc_headers_def)

text \<open>
  C8. \<^verbatim>\<open>GC\<close> does not use what the context capture returns and calls \<^verbatim>\<open>GCSI\<close> in
  every case: when the capture fails (it returns -1 and writes nothing), \<^verbatim>\<open>GCSI\<close> is
  still called, once, with the address of the record, on the machine as it was.
\<close>

theorem GC_ignores_capture_result:
  "fst (getcontext False context (calls, m)) = - 1
   \<and> snd (snd (getcontext False context (calls, m))) = m
   \<and> GC p False collector context (calls, m)
     = ((), calls @ [Ev_getcontext context (- 1), Ev_GCSI (sizeof_Word p) context],
        collector (sizeof_Word p) context m)
   \<and> GCSI_calls (fst (snd (GC p ok collector context (calls, m))))
     = GCSI_calls calls @ [(sizeof_Word p, context)]"
  by (simp add: GC_unfolded getcontext_def GCSI_calls_append)

theorem GC_ignores_capture_result_witness:
  "GC big_target False no_collection 2048 ([], idle_machine)
     = ((), [Ev_getcontext 2048 (- 1), Ev_GCSI 4 2048], idle_machine)
   \<and> memory idle_machine 2048 = None"
  using GC_ignores_capture_result [of 2048 "[]" idle_machine big_target no_collection True]
  by (simp add: no_collection_def idle_machine_def sizeof_Word_def big_target_def)

end
